theory Spec2Isabelle
  imports Complex_Main
begin

section \<open>Python values, errors and dictionaries\<close>

text \<open>
  The exceptions the module can raise by itself: a missing dictionary key, subscripting
  \<open>None\<close>, the \<open>assert\<close> of the model function, and the arithmetic failure of a
  division by a zero stride product. \<open>ValueError\<close> is what a conversion to a number
  raises on a malformed string.
\<close>

datatype error = KeyError string | TypeError | AssertionError | ArithmeticError | ValueError

text \<open>
  A label as the metadata provider hands it out (a string or a number), and the float
  \<open>np.nan\<close>. Numbers are kept as rationals; every number the module computes itself is
  a small dyadic rational, which binary floating point represents exactly.
\<close>

datatype pyval = Str string | Num rat | NaN

datatype float32 = F32_nan | F32 rat

text \<open>
  \<open>np.float32(x)\<close>: not-a-number stays not-a-number; what the constructor does on
  every other value (parsing a string, rounding a number to single precision, raising on a
  malformed string) is the parameter \<open>conv\<close>.
\<close>

definition np_float32 :: "(pyval \<Rightarrow> error + float32) \<Rightarrow> pyval \<Rightarrow> error + float32" where
  "np_float32 conv x = (case x of NaN \<Rightarrow> Inr F32_nan | _ \<Rightarrow> conv x)"

text \<open>\<open>d[k]\<close> on a dictionary, and on a value that may be \<open>None\<close>.\<close>

definition getitem :: "(string \<rightharpoonup> 'a) \<Rightarrow> string \<Rightarrow> error + 'a" where
  "getitem d k = (case d k of None \<Rightarrow> Inl (KeyError k) | Some v \<Rightarrow> Inr v)"

definition getitem_opt :: "(string \<rightharpoonup> 'a) option \<Rightarrow> string \<Rightarrow> error + 'a" where
  "getitem_opt d k = (case d of None \<Rightarrow> Inl TypeError | Some m \<Rightarrow> getitem m k)"

text \<open>
  The builtin \<open>round\<close> of the Python this module is written for (it imports
  \<open>division\<close> from \<open>__future__\<close>): halves go away from zero. Rounding halves to even
  gives the same integer whenever the fractional part is not exactly one half.
\<close>

definition py_round :: "rat \<Rightarrow> int" where
  "py_round x = (if 0 \<le> x then \<lfloor>x + 1 / 2\<rfloor> else \<lceil>x - 1 / 2\<rceil>)"

section \<open>Objectives\<close>

text \<open>
  The class \<open>XOrNan\<close> is declared inside the constructor of the model and closes over
  its \<open>vessel_metadata\<close> argument; an instance holds the label key.
\<close>

datatype 'md XOrNan = XOrNan (closure_vessel_metadata: 'md) (key: string)

text \<open>
  \<open>XOrNan.__call__\<close>. The method \<open>vessel_label\<close> of the metadata provider is a
  parameter; it may raise.
\<close>

definition XOrNan_call ::
  "('md \<Rightarrow> string \<Rightarrow> int \<Rightarrow> error + pyval) \<Rightarrow> (pyval \<Rightarrow> error + float32) \<Rightarrow>
   'md XOrNan \<Rightarrow> int \<Rightarrow> error + float32" where
  "XOrNan_call vessel_label conv self mmsi =
     (case vessel_label (closure_vessel_metadata self) (key self) mmsi of
        Inl e \<Rightarrow> Inl e
      | Inr x \<Rightarrow> np_float32 conv (if x = Str [] then NaN else x))"

text \<open>
  Modelled from the spec: the objectives module is not among the sources. An objective is
  "a named prediction task (regression or classification)", "carrying a name, a
  label-extraction function, a loss weight". The two constructors keep the arguments of the
  calls in the model's constructor, in the order written there: name, metric label, the
  label extraction (an \<open>XOrNan\<close>, or the metadata provider itself), \<open>metrics\<close> and
  \<open>loss_weight\<close>. The literal \<open>0.1\<close> is kept as the decimal it is written as.
\<close>

datatype ('md, 'mt) objective =
    LogRegressionObjectiveMAE (name: string) (metric_label: string)
      (value_from_mmsi: "'md XOrNan") (metrics: 'mt) (loss_weight: rat)
  | MultiClassificationObjective (name: string) (metric_label: string)
      (class_metadata: 'md) (metrics: 'mt) (loss_weight: rat)

section \<open>The model: hyperparameters\<close>

record ('md, 'mt) Model =
  num_feature_dimensions :: int
  vessel_metadata :: 'md
  training_objectives :: "('md, 'mt) objective list"
  objective_map :: "string \<rightharpoonup> ('md, 'mt) objective"

definition window_size :: int where
  "window_size = 3"

definition feature_depths :: "int list" where
  "feature_depths = [48, 64, 96, 128, 192, 256, 384, 512, 768]"

definition strides :: "int list" where
  "strides = replicate 9 2"

definition feature_sub_depths :: int where
  "feature_sub_depths = 1024"

definition initial_learning_rate :: rat where
  "initial_learning_rate = 100 / 10 ^ 5"

definition learning_decay_rate :: rat where
  "learning_decay_rate = 2 / 10"

definition decay_examples :: int where
  "decay_examples = 100000"

definition virtual_batch_size :: int where
  "virtual_batch_size = 16"

definition number_of_steps :: "('md, 'mt) Model \<Rightarrow> int" where
  "number_of_steps self = 700000"

definition max_window_duration_seconds :: "('md, 'mt) Model \<Rightarrow> int" where
  "max_window_duration_seconds self = 180 * 24 * 3600"

definition batch_size :: "('md, 'mt) Model \<Rightarrow> int" where
  "batch_size self = 128"

definition min_viable_timeslice_length :: "('md, 'mt) Model \<Rightarrow> int" where
  "min_viable_timeslice_length self = 500"

text \<open>
  The body of the property \<open>window_max_points\<close>, on a window duration and a stride
  list. \<open>/\<close> is true division. A zero stride product makes the division (or the
  conversion of its infinite result to an integer) fail. The logging call is left out.
\<close>

definition window_max_points_of :: "int \<Rightarrow> int list \<Rightarrow> error + int" where
  "window_max_points_of duration ss =
     (let nominal_max_points = (rat_of_int duration / (5 * 60)) / 4;
          layer_reductions = prod_list ss
      in if layer_reductions = 0 then Inl ArithmeticError
         else let final_size = py_round (nominal_max_points / rat_of_int layer_reductions);
                  max_points = final_size * layer_reductions
              in Inr max_points)"

definition window_max_points :: "('md, 'mt) Model \<Rightarrow> error + int" where
  "window_max_points self = window_max_points_of (max_window_duration_seconds self) strides"

section \<open>The model: construction\<close>

text \<open>The dictionary comprehension \<open>{obj.name : obj for obj in objs}\<close>: a later entry
  with the same name replaces an earlier one.\<close>

definition dict_by_name :: "('md, 'mt) objective list \<Rightarrow> (string \<rightharpoonup> ('md, 'mt) objective)" where
  "dict_by_name objs = fold (\<lambda>obj d. d(name obj \<mapsto> obj)) objs Map.empty"

text \<open>\<open>Model.__init__\<close>; the base class keeps the first two arguments.\<close>

definition Model_init :: "int \<Rightarrow> 'md \<Rightarrow> 'mt \<Rightarrow> ('md, 'mt) Model" where
  "Model_init num_feature_dimensions_arg vessel_metadata_arg metrics_arg =
     (let objs =
        [LogRegressionObjectiveMAE ''length'' ''Vessel-length''
           (XOrNan vessel_metadata_arg ''length'') metrics_arg (1 / 10),
         LogRegressionObjectiveMAE ''tonnage'' ''Vessel-tonnage''
           (XOrNan vessel_metadata_arg ''tonnage'') metrics_arg (1 / 10),
         LogRegressionObjectiveMAE ''engine_power'' ''Vessel-engine-Power''
           (XOrNan vessel_metadata_arg ''engine_power'') metrics_arg (1 / 10),
         LogRegressionObjectiveMAE ''crew_size'' ''Vessel-Crew-Size''
           (XOrNan vessel_metadata_arg ''crew_size'') metrics_arg (1 / 10),
         MultiClassificationObjective ''Multiclass'' ''Vessel-class''
           vessel_metadata_arg metrics_arg 1]
      in \<lparr> num_feature_dimensions = num_feature_dimensions_arg,
           vessel_metadata = vessel_metadata_arg,
           training_objectives = objs,
           objective_map = dict_by_name objs \<rparr>)"

section \<open>The network and the model function\<close>

text \<open>
  The keyword arguments of the call of \<open>layers.misconception_model\<close> in
  \<open>_build_net\<close>; the first field is the positional \<open>features\<close>.
\<close>

record ('t, 'md, 'mt) misconception_args =
  mm_features :: 't
  mm_filters_list :: "int list"
  mm_kernel_size :: int
  mm_strides_list :: "int list"
  mm_objective_functions :: "('md, 'mt) objective list"
  mm_training :: bool
  mm_sub_filters :: int
  mm_sub_layers :: int
  mm_virtual_batch_size :: int

text \<open>
  The collaborators of the model function that live in the layers and objectives modules:
  the backbone constructor, which builds the heads of the objectives it is given (the
  result \<open>'n\<close> stands for the network it has built), and the \<open>prediction\<close>,
  \<open>create_loss\<close> and \<open>create_metrics\<close> of an objective on that network. Tensors are
  \<open>'t\<close>, losses \<open>'l\<close>, metric operations \<open>'mo\<close>.
\<close>

record ('t, 'n, 'l, 'mo, 'md, 'mt) collaborators =
  misconception_model :: "('t, 'md, 'mt) misconception_args \<Rightarrow> 'n"
  prediction :: "'n \<Rightarrow> ('md, 'mt) objective \<Rightarrow> 't"
  create_loss :: "'n \<Rightarrow> ('md, 'mt) objective \<Rightarrow> 't \<Rightarrow> 'l"
  create_metrics :: "'n \<Rightarrow> ('md, 'mt) objective \<Rightarrow> 't \<Rightarrow> (string \<rightharpoonup> 'mo)"

definition build_net ::
  "('t, 'n, 'l, 'mo, 'md, 'mt) collaborators \<Rightarrow> ('md, 'mt) Model \<Rightarrow> 't \<Rightarrow> 't \<Rightarrow> 't \<Rightarrow> bool \<Rightarrow> 'n" where
  "build_net ext self features timestamps mmsis is_training =
     misconception_model ext
       \<lparr> mm_features = features,
         mm_filters_list = feature_depths,
         mm_kernel_size = window_size,
         mm_strides_list = strides,
         mm_objective_functions = training_objectives self,
         mm_training = is_training,
         mm_sub_filters = feature_sub_depths,
         mm_sub_layers = 2,
         mm_virtual_batch_size = virtual_batch_size \<rparr>"

text \<open>The mode keys of the estimator framework are strings.\<close>

definition TRAIN :: string where
  "TRAIN = ''train''"

definition EVAL :: string where
  "EVAL = ''eval''"

definition PREDICT :: string where
  "PREDICT = ''infer''"

text \<open>The graph nodes the framework hands back, kept as terms.\<close>

datatype global_step = Get_global_step

datatype learning_rate = Exponential_decay rat global_step int rat

datatype optimizer = AdamOptimizer learning_rate

datatype update_ops = Get_collection_UPDATE_OPS

text \<open>\<open>optimizer.minimize(loss, global_step)\<close> under the control dependencies.\<close>

datatype 'l train_op = Minimize optimizer 'l global_step update_ops

record ('t, 'l, 'mo) EstimatorSpec =
  spec_mode :: string
  spec_predictions :: "(string \<rightharpoonup> 't) option"
  spec_loss :: "'l option"
  spec_train_op :: "'l train_op option"
  spec_eval_metric_ops :: "(string \<rightharpoonup> 'mo) option"

text \<open>The loop filling the predictions dictionary.\<close>

definition add_predictions ::
  "('t, 'n, 'l, 'mo, 'md, 'mt) collaborators \<Rightarrow> 'n \<Rightarrow> ('md, 'mt) objective list \<Rightarrow>
   (string \<rightharpoonup> 't) \<Rightarrow> (string \<rightharpoonup> 't)" where
  "add_predictions ext net objs predictions =
     fold (\<lambda>obj d. d(name obj \<mapsto> prediction ext net obj)) objs predictions"

text \<open>The loop \<open>total_loss += obj.create_loss(labels[obj.name])\<close>.\<close>

fun sum_losses ::
  "('t, 'n, 'l::{zero,plus}, 'mo, 'md, 'mt) collaborators \<Rightarrow> 'n \<Rightarrow> (string \<rightharpoonup> 't) option \<Rightarrow>
   ('md, 'mt) objective list \<Rightarrow> 'l \<Rightarrow> error + 'l" where
  "sum_losses ext net labels [] total_loss = Inr total_loss"
| "sum_losses ext net labels (obj # objs) total_loss =
     (case getitem_opt labels (name obj) of
        Inl e \<Rightarrow> Inl e
      | Inr label \<Rightarrow> sum_losses ext net labels objs (total_loss + create_loss ext net obj label))"

text \<open>The loop \<open>eval_metrics.update(obj.create_metrics(labels[obj.name]))\<close>.\<close>

fun collect_metrics ::
  "('t, 'n, 'l, 'mo, 'md, 'mt) collaborators \<Rightarrow> 'n \<Rightarrow> (string \<rightharpoonup> 't) option \<Rightarrow>
   ('md, 'mt) objective list \<Rightarrow> (string \<rightharpoonup> 'mo) \<Rightarrow> error + (string \<rightharpoonup> 'mo)" where
  "collect_metrics ext net labels [] eval_metrics = Inr eval_metrics"
| "collect_metrics ext net labels (obj # objs) eval_metrics =
     (case getitem_opt labels (name obj) of
        Inl e \<Rightarrow> Inl e
      | Inr label \<Rightarrow>
          collect_metrics ext net labels objs (eval_metrics ++ create_metrics ext net obj label))"

text \<open>
  The closure \<open>_model_fn\<close> returned by \<open>make_model_fn\<close>. \<open>labels\<close> is \<open>None\<close> when
  the framework passes no labels.
\<close>

definition model_fn ::
  "('t, 'n, 'l::{zero,plus}, 'mo, 'md, 'mt) collaborators \<Rightarrow> ('md, 'mt) Model \<Rightarrow>
   (string \<rightharpoonup> 't) \<Rightarrow> (string \<rightharpoonup> 't) option \<Rightarrow> string \<Rightarrow> 'p \<Rightarrow>
   error + ('t, 'l, 'mo) EstimatorSpec" where
  "model_fn ext self features labels mode params =
     (let is_train = (mode = TRAIN) in
      case getitem features ''mmsi'' of Inl e \<Rightarrow> Inl e | Inr mmsis \<Rightarrow>
      case getitem features ''time_ranges'' of Inl e \<Rightarrow> Inl e | Inr time_ranges \<Rightarrow>
      case getitem features ''timestamps'' of Inl e \<Rightarrow> Inl e | Inr timestamps \<Rightarrow>
      case getitem features ''features'' of Inl e \<Rightarrow> Inl e | Inr features' \<Rightarrow>
      let net = build_net ext self features' timestamps mmsis is_train in
      if mode = PREDICT then
        let predictions = add_predictions ext net (training_objectives self)
              [''mmsi'' \<mapsto> mmsis, ''time_ranges'' \<mapsto> time_ranges, ''timestamps'' \<mapsto> timestamps]
        in Inr \<lparr> spec_mode = mode, spec_predictions = Some predictions, spec_loss = None,
                 spec_train_op = None, spec_eval_metric_ops = None \<rparr>
      else
        let global_step = Get_global_step in
        case sum_losses ext net labels (training_objectives self) 0 of
          Inl e \<Rightarrow> Inl e
        | Inr total_loss \<Rightarrow>
            let learning_rate = Exponential_decay initial_learning_rate global_step
                                  decay_examples learning_decay_rate
            in if mode = TRAIN then
                 let optimizer = AdamOptimizer learning_rate;
                     update_ops = Get_collection_UPDATE_OPS;
                     train_op = Minimize optimizer total_loss global_step update_ops
                 in Inr \<lparr> spec_mode = mode, spec_predictions = None,
                          spec_loss = Some total_loss, spec_train_op = Some train_op,
                          spec_eval_metric_ops = None \<rparr>
               else if mode \<noteq> EVAL then Inl AssertionError
               else
                 case collect_metrics ext net labels (training_objectives self) Map.empty of
                   Inl e \<Rightarrow> Inl e
                 | Inr eval_metrics \<Rightarrow>
                     Inr \<lparr> spec_mode = mode, spec_predictions = None,
                           spec_loss = Some total_loss, spec_train_op = None,
                           spec_eval_metric_ops = Some eval_metrics \<rparr>)"

section \<open>Input functions\<close>

text \<open>
  A stream is the call of the feature-generation module that makes it (with the arguments
  in the order the module under study passes them), or the result of one of the methods
  \<open>prefetch\<close>, \<open>shuffle\<close> and \<open>batch\<close> on a stream.
\<close>

datatype ('md, 'mt, 'fl, 'pa, 'ri) dataset =
    Input_fn 'md 'fl int int int int "('md, 'mt) objective list" int
  | Predict_input_fn 'pa int 'ri int int int
  | Prefetch "('md, 'mt, 'fl, 'pa, 'ri) dataset" int
  | Shuffle "('md, 'mt, 'fl, 'pa, 'ri) dataset" int
  | Batch "('md, 'mt, 'fl, 'pa, 'ri) dataset" int

text \<open>
  The metadata module's split constants and the base class's
  \<open>build_training_file_list\<close> are parameters.
\<close>

record ('md, 'mt, 'sp, 'fl) input_env =
  TRAINING_SPLIT :: 'sp
  TEST_SPLIT :: 'sp
  build_training_file_list :: "('md, 'mt) Model \<Rightarrow> string \<Rightarrow> 'sp \<Rightarrow> 'fl"

definition make_input_fn ::
  "('md, 'mt, 'sp, 'fl) input_env \<Rightarrow> ('md, 'mt) Model \<Rightarrow> string \<Rightarrow> 'sp \<Rightarrow> int \<Rightarrow> int \<Rightarrow>
   (unit \<Rightarrow> error + ('md, 'mt, 'fl, 'pa, 'ri) dataset)" where
  "make_input_fn env self base_feature_path split parallelism prefetch =
     (\<lambda>_. case window_max_points self of
             Inl e \<Rightarrow> Inl e
           | Inr points \<Rightarrow>
               Inr (Batch
                     (Shuffle
                       (Prefetch
                         (Input_fn (vessel_metadata self)
                            (build_training_file_list env self base_feature_path split)
                            (num_feature_dimensions self + 1)
                            (max_window_duration_seconds self)
                            points
                            (min_viable_timeslice_length self)
                            (training_objectives self)
                            parallelism)
                         prefetch)
                       prefetch)
                     (batch_size self)))"

text \<open>An omitted \<open>prefetch\<close> argument is \<open>None\<close>; the default is 1024.\<close>

definition make_training_input_fn ::
  "('md, 'mt, 'sp, 'fl) input_env \<Rightarrow> ('md, 'mt) Model \<Rightarrow> string \<Rightarrow> int \<Rightarrow> int option \<Rightarrow>
   (unit \<Rightarrow> error + ('md, 'mt, 'fl, 'pa, 'ri) dataset)" where
  "make_training_input_fn env self base_feature_path parallelism prefetch =
     make_input_fn env self base_feature_path (TRAINING_SPLIT env) parallelism
       (case prefetch of None \<Rightarrow> 1024 | Some p \<Rightarrow> p)"

definition make_test_input_fn ::
  "('md, 'mt, 'sp, 'fl) input_env \<Rightarrow> ('md, 'mt) Model \<Rightarrow> string \<Rightarrow> int \<Rightarrow> int option \<Rightarrow>
   (unit \<Rightarrow> error + ('md, 'mt, 'fl, 'pa, 'ri) dataset)" where
  "make_test_input_fn env self base_feature_path parallelism prefetch =
     make_input_fn env self base_feature_path (TEST_SPLIT env) parallelism
       (case prefetch of None \<Rightarrow> 1024 | Some p \<Rightarrow> p)"

definition make_prediction_input_fn ::
  "('md, 'mt) Model \<Rightarrow> 'pa \<Rightarrow> 'ri \<Rightarrow> int \<Rightarrow>
   (unit \<Rightarrow> error + ('md, 'mt, 'fl, 'pa, 'ri) dataset)" where
  "make_prediction_input_fn self paths range_info parallelism =
     (let time_ranges = range_info in
      (\<lambda>_. case window_max_points self of
              Inl e \<Rightarrow> Inl e
            | Inr points \<Rightarrow>
                Inr (Batch
                      (Predict_input_fn paths
                         (num_feature_dimensions self + 1)
                         time_ranges
                         points
                         (min_viable_timeslice_length self)
                         parallelism)
                      1)))"

text \<open>Whether a stream has gone through \<open>prefetch\<close>, \<open>shuffle\<close>, \<open>batch\<close>.\<close>

fun prefetched :: "('md, 'mt, 'fl, 'pa, 'ri) dataset \<Rightarrow> bool" where
  "prefetched (Prefetch ds n) = True"
| "prefetched (Shuffle ds n) = prefetched ds"
| "prefetched (Batch ds n) = prefetched ds"
| "prefetched _ = False"

fun shuffled :: "('md, 'mt, 'fl, 'pa, 'ri) dataset \<Rightarrow> bool" where
  "shuffled (Shuffle ds n) = True"
| "shuffled (Prefetch ds n) = shuffled ds"
| "shuffled (Batch ds n) = shuffled ds"
| "shuffled _ = False"

fun batched :: "('md, 'mt, 'fl, 'pa, 'ri) dataset \<Rightarrow> bool" where
  "batched (Batch ds n) = True"
| "batched (Prefetch ds n) = batched ds"
| "batched (Shuffle ds n) = batched ds"
| "batched _ = False"

text \<open>What the claim "the stream is batched, shuffled and prefetched" says of the result
  of calling an input function.\<close>

definition batched_shuffled_prefetched :: "error + ('md, 'mt, 'fl, 'pa, 'ri) dataset \<Rightarrow> bool" where
  "batched_shuffled_prefetched r =
     (case r of Inl e \<Rightarrow> False | Inr ds \<Rightarrow> batched ds \<and> shuffled ds \<and> prefetched ds)"

section \<open>Sample collaborators\<close>

text \<open>
  Concrete stand-ins for the external modules, used to run the definitions: a metadata
  provider that knows two vessels (the first without a label), a number conversion, and a
  network whose tensors are strings and whose losses are integers.
\<close>

definition sample_vessel_label :: "unit \<Rightarrow> string \<Rightarrow> int \<Rightarrow> error + pyval" where
  "sample_vessel_label md k mmsi =
     (if mmsi = 1 then Inr (Str [])
      else if mmsi = 2 then Inr (Str ''12.5'')
      else Inl (KeyError ''mmsi''))"

definition sample_conv :: "pyval \<Rightarrow> error + float32" where
  "sample_conv v =
     (case v of
        Str s \<Rightarrow> if s = ''12.5'' then Inr (F32 (25 / 2)) else Inl ValueError
      | Num r \<Rightarrow> Inr (F32 r)
      | NaN \<Rightarrow> Inr F32_nan)"

definition sample_ext :: "(string, bool, int, string, unit, unit) collaborators" where
  "sample_ext =
     \<lparr> misconception_model = mm_training,
       prediction = (\<lambda>net obj. ''prediction of '' @ name obj),
       create_loss = (\<lambda>net obj label. int (length label)),
       create_metrics = (\<lambda>net obj label. [name obj \<mapsto> label]) \<rparr>"

definition sample_features :: "string \<rightharpoonup> string" where
  "sample_features =
     [''mmsi'' \<mapsto> ''m'', ''time_ranges'' \<mapsto> ''r'', ''timestamps'' \<mapsto> ''t'', ''features'' \<mapsto> ''f'']"

definition sample_labels :: "string \<rightharpoonup> string" where
  "sample_labels =
     [''length'' \<mapsto> ''a'', ''tonnage'' \<mapsto> ''bb'', ''engine_power'' \<mapsto> ''ccc'',
      ''crew_size'' \<mapsto> ''dddd'', ''Multiclass'' \<mapsto> ''eeeee'']"

definition sample_model :: "(unit, unit) Model" where
  "sample_model = Model_init 14 () ()"

section \<open>The window size\<close>

lemma prod_list_strides: "prod_list strides = 512"
  by (simp add: strides_def eval_nat_numeral)

text \<open>The assertion in the class body.\<close>

lemma length_strides_feature_depths: "length strides = length feature_depths"
  by (simp add: strides_def feature_depths_def)

lemma py_round_configured: "py_round (405 / 16) = 25"
  by code_simp

lemma window_max_points_value: "window_max_points self = Inr 12800"
  unfolding window_max_points_def window_max_points_of_def max_window_duration_seconds_def
    Let_def prod_list_strides
  using py_round_configured by simp

text \<open>
  C1: for the configured hyperparameters, \<open>window_max_points\<close> returns
  \<open>round(((max_window_duration_seconds / 300) / 4) / prod(strides)) * prod(strides)\<close>,
  so the product of the strides divides the value returned.
\<close>

theorem window_max_points_multiple_of_strides:
  "window_max_points self =
     Inr (py_round (((rat_of_int (max_window_duration_seconds self) / 300) / 4)
                      / rat_of_int (prod_list strides)) * prod_list strides)
   \<and> (\<exists>n. window_max_points self = Inr n \<and> prod_list strides dvd n)"
proof -
  have nz: "prod_list strides \<noteq> 0"
    by (simp add: prod_list_strides)
  have eq: "window_max_points self =
     Inr (py_round (((rat_of_int (max_window_duration_seconds self) / 300) / 4)
                      / rat_of_int (prod_list strides)) * prod_list strides)"
    using nz by (simp add: window_max_points_def window_max_points_of_def Let_def)
  show ?thesis
    using eq by simp
qed

text \<open>
  C8: \<open>window_max_points\<close> returns 12800 whatever the model instance: the nominal point
  count is 12960, the product of the nine strides is 512, 12960 / 512 rounds to 25, and
  25 * 512 = 12800.
\<close>

theorem window_max_points_is_12800:
  "rat_of_int (max_window_duration_seconds self) / (5 * 60) / 4 = 12960
   \<and> length strides = 9
   \<and> prod_list strides = 512
   \<and> py_round (12960 / 512) = 25
   \<and> window_max_points self = Inr (25 * 512)
   \<and> window_max_points self = Inr 12800"
proof -
  have "py_round (12960 / 512) = py_round (405 / 16)" by simp
  then show ?thesis
    by (simp add: window_max_points_value prod_list_strides max_window_duration_seconds_def
        py_round_configured strides_def)
qed

section \<open>The objectives of a constructed model\<close>

lemma training_objectives_Model_init:
  "training_objectives (Model_init n md mt) =
     [LogRegressionObjectiveMAE ''length'' ''Vessel-length'' (XOrNan md ''length'') mt (1 / 10),
      LogRegressionObjectiveMAE ''tonnage'' ''Vessel-tonnage'' (XOrNan md ''tonnage'') mt (1 / 10),
      LogRegressionObjectiveMAE ''engine_power'' ''Vessel-engine-Power''
        (XOrNan md ''engine_power'') mt (1 / 10),
      LogRegressionObjectiveMAE ''crew_size'' ''Vessel-Crew-Size''
        (XOrNan md ''crew_size'') mt (1 / 10),
      MultiClassificationObjective ''Multiclass'' ''Vessel-class'' md mt 1]"
  by (simp add: Model_init_def Let_def)








section \<open>Label substitution\<close>

text \<open>
  C3: for every vessel and label key, \<open>XOrNan\<close> returns the float32 not-a-number when
  the metadata provider returns the empty string, without raising, and otherwise returns
  the conversion of the label to float32, with no other check.
\<close>

theorem XOrNan_nan_or_value:
  "(vessel_label md k mmsi = Inr (Str []) \<longrightarrow>
      XOrNan_call vessel_label conv (XOrNan md k) mmsi = Inr F32_nan)
   \<and> (vessel_label md k mmsi = Inr x \<and> x \<noteq> Str [] \<longrightarrow>
      XOrNan_call vessel_label conv (XOrNan md k) mmsi = np_float32 conv x)"
  by (simp add: XOrNan_call_def np_float32_def)

theorem XOrNan_nan_or_value_witness:
  "sample_vessel_label () ''length'' 1 = Inr (Str [])
   \<and> XOrNan_call sample_vessel_label sample_conv (XOrNan () ''length'') 1 = Inr F32_nan
   \<and> sample_vessel_label () ''length'' 2 = Inr (Str ''12.5'')
   \<and> Str ''12.5'' \<noteq> Str []
   \<and> XOrNan_call sample_vessel_label sample_conv (XOrNan () ''length'') 2 = Inr (F32 (25 / 2))"
proof -
  have a: "sample_vessel_label () ''length'' 1 = Inr (Str [])"
    by (simp add: sample_vessel_label_def)
  have b: "sample_vessel_label () ''length'' 2 = Inr (Str ''12.5'')"
    by (simp add: sample_vessel_label_def)
  have c: "np_float32 sample_conv (Str ''12.5'') = Inr (F32 (25 / 2))"
    by (simp add: np_float32_def sample_conv_def)
  show ?thesis
    using a b c
      XOrNan_nan_or_value [where vessel_label = sample_vessel_label and md = "()"
        and k = "''length''" and mmsi = 1 and conv = sample_conv]
      XOrNan_nan_or_value [where vessel_label = sample_vessel_label and md = "()"
        and k = "''length''" and mmsi = 2 and conv = sample_conv and x = "Str ''12.5''"]
    by simp
qed

section \<open>The model function\<close>

lemma PREDICT_neq_TRAIN: "PREDICT \<noteq> TRAIN" "TRAIN \<noteq> EVAL" "PREDICT \<noteq> EVAL"
  by (simp_all add: PREDICT_def TRAIN_def EVAL_def)

lemma sum_losses_present:
  "name ` set objs \<subseteq> dom l \<Longrightarrow>
   sum_losses ext net (Some l) objs acc =
     Inr (foldl (+) acc (map (\<lambda>obj. create_loss ext net obj (the (l (name obj)))) objs))"
  by (induction objs arbitrary: acc) (auto simp: getitem_opt_def getitem_def)

lemma collect_metrics_present:
  "name ` set objs \<subseteq> dom l \<Longrightarrow> \<exists>m. collect_metrics ext net (Some l) objs acc = Inr m"
  by (induction objs arbitrary: acc) (auto simp: getitem_opt_def getitem_def)

lemma model_fn_predict:
  assumes "features ''mmsi'' = Some mmsis" and "features ''time_ranges'' = Some time_ranges"
    and "features ''timestamps'' = Some timestamps" and "features ''features'' = Some feats"
  shows "model_fn ext self features labels PREDICT params =
     Inr \<lparr> spec_mode = PREDICT,
           spec_predictions = Some (add_predictions ext
             (build_net ext self feats timestamps mmsis False) (training_objectives self)
             [''mmsi'' \<mapsto> mmsis, ''time_ranges'' \<mapsto> time_ranges, ''timestamps'' \<mapsto> timestamps]),
           spec_loss = None, spec_train_op = None, spec_eval_metric_ops = None \<rparr>"
  using assms by (simp add: model_fn_def getitem_def PREDICT_neq_TRAIN)

lemma model_fn_train:
  assumes "features ''mmsi'' = Some mmsis" and "features ''time_ranges'' = Some time_ranges"
    and "features ''timestamps'' = Some timestamps" and "features ''features'' = Some feats"
    and "name ` set (training_objectives self) \<subseteq> dom l"
  shows "model_fn ext self features (Some l) TRAIN params =
     Inr \<lparr> spec_mode = TRAIN, spec_predictions = None,
           spec_loss = Some (foldl (+) 0 (map (\<lambda>obj. create_loss ext
              (build_net ext self feats timestamps mmsis True) obj (the (l (name obj))))
              (training_objectives self))),
           spec_train_op = Some (Minimize
              (AdamOptimizer (Exponential_decay initial_learning_rate Get_global_step
                 decay_examples learning_decay_rate))
              (foldl (+) 0 (map (\<lambda>obj. create_loss ext
                 (build_net ext self feats timestamps mmsis True) obj (the (l (name obj))))
                 (training_objectives self)))
              Get_global_step Get_collection_UPDATE_OPS),
           spec_eval_metric_ops = None \<rparr>"
  using assms PREDICT_neq_TRAIN
  by (simp add: model_fn_def getitem_def sum_losses_present Let_def)

lemma model_fn_eval:
  assumes "features ''mmsi'' = Some mmsis" and "features ''time_ranges'' = Some time_ranges"
    and "features ''timestamps'' = Some timestamps" and "features ''features'' = Some feats"
    and "name ` set (training_objectives self) \<subseteq> dom l"
  shows "\<exists>m. model_fn ext self features (Some l) EVAL params =
     Inr \<lparr> spec_mode = EVAL, spec_predictions = None,
           spec_loss = Some (foldl (+) 0 (map (\<lambda>obj. create_loss ext
              (build_net ext self feats timestamps mmsis False) obj (the (l (name obj))))
              (training_objectives self))),
           spec_train_op = None,
           spec_eval_metric_ops = Some m \<rparr>"
proof -
  obtain m where m: "collect_metrics ext (build_net ext self feats timestamps mmsis False)
      (Some l) (training_objectives self) Map.empty = Inr m"
    using collect_metrics_present [OF assms(5), of ext
        "build_net ext self feats timestamps mmsis False" Map.empty] by auto
  show ?thesis
    using assms PREDICT_neq_TRAIN m
    by (simp add: model_fn_def getitem_def sum_losses_present Let_def)
qed

lemma model_fn_other_mode:
  assumes "features ''mmsi'' = Some mmsis" and "features ''time_ranges'' = Some time_ranges"
    and "features ''timestamps'' = Some timestamps" and "features ''features'' = Some feats"
    and "name ` set (training_objectives self) \<subseteq> dom l"
    and "mode \<noteq> PREDICT" and "mode \<noteq> TRAIN" and "mode \<noteq> EVAL"
  shows "model_fn ext self features (Some l) mode params = Inl AssertionError"
  using assms by (simp add: model_fn_def getitem_def sum_losses_present Let_def)

lemma model_fn_other_mode_fails:
  assumes "mode \<noteq> PREDICT" and "mode \<noteq> TRAIN" and "mode \<noteq> EVAL"
  shows "model_fn ext self features labels mode params \<noteq> Inr s"
  using assms by (simp add: model_fn_def Let_def split: sum.splits)

lemma sample_features_ok:
  "sample_features ''mmsi'' = Some ''m''" "sample_features ''time_ranges'' = Some ''r''"
  "sample_features ''timestamps'' = Some ''t''" "sample_features ''features'' = Some ''f''"
  by (simp_all add: sample_features_def)

lemma sample_labels_ok:
  "sample_labels ''length'' = Some ''a''" "sample_labels ''tonnage'' = Some ''bb''"
  "sample_labels ''engine_power'' = Some ''ccc''" "sample_labels ''crew_size'' = Some ''dddd''"
  "sample_labels ''Multiclass'' = Some ''eeeee''"
  by (simp_all add: sample_labels_def)

lemma sample_labels_cover:
  "name ` set (training_objectives sample_model) \<subseteq> dom sample_labels"
  by (simp add: sample_model_def training_objectives_Model_init dom_def sample_labels_ok)

lemma create_loss_sample: "create_loss sample_ext net obj label = int (length label)"
  by (simp add: sample_ext_def)

lemma prediction_sample: "prediction sample_ext net obj = ''prediction of '' @ name obj"
  by (simp add: sample_ext_def)

text \<open>
  C2: the model function dispatches on exactly three modes. On features that hold the
  four keys it reads and labels that hold an entry for every objective, PREDICT, TRAIN
  and EVAL each give an estimator spec of that mode; for every other mode the function
  gives no spec, whatever the features and labels, and on such features and labels it
  fails at the assertion that the mode is EVAL.
\<close>

theorem model_fn_mode_dispatch:
  assumes "features ''mmsi'' = Some mmsis" and "features ''time_ranges'' = Some time_ranges"
    and "features ''timestamps'' = Some timestamps" and "features ''features'' = Some feats"
    and "name ` set (training_objectives self) \<subseteq> dom l"
  shows "distinct [PREDICT, TRAIN, EVAL]
   \<and> (\<exists>s. model_fn ext self features labels PREDICT params = Inr s \<and> spec_mode s = PREDICT)
   \<and> (\<exists>s. model_fn ext self features (Some l) TRAIN params = Inr s \<and> spec_mode s = TRAIN)
   \<and> (\<exists>s. model_fn ext self features (Some l) EVAL params = Inr s \<and> spec_mode s = EVAL)
   \<and> (mode \<notin> {PREDICT, TRAIN, EVAL} \<longrightarrow>
        model_fn ext self features (Some l) mode params = Inl AssertionError
        \<and> (\<forall>features' labels' s. model_fn ext self features' labels' mode params \<noteq> Inr s))"
proof -
  have d: "distinct [PREDICT, TRAIN, EVAL]"
    using PREDICT_neq_TRAIN by simp
  have p: "\<exists>s. model_fn ext self features labels PREDICT params = Inr s \<and> spec_mode s = PREDICT"
    by (simp add: model_fn_predict [OF assms(1-4)])
  have t: "\<exists>s. model_fn ext self features (Some l) TRAIN params = Inr s \<and> spec_mode s = TRAIN"
    by (simp add: model_fn_train [OF assms])
  have e: "\<exists>s. model_fn ext self features (Some l) EVAL params = Inr s \<and> spec_mode s = EVAL"
    using model_fn_eval [OF assms, of ext params] by auto
  have o: "mode \<notin> {PREDICT, TRAIN, EVAL} \<longrightarrow>
        model_fn ext self features (Some l) mode params = Inl AssertionError
        \<and> (\<forall>features' labels' s. model_fn ext self features' labels' mode params \<noteq> Inr s)"
  proof
    assume "mode \<notin> {PREDICT, TRAIN, EVAL}"
    then have m: "mode \<noteq> PREDICT" "mode \<noteq> TRAIN" "mode \<noteq> EVAL"
      by simp_all
    have a: "model_fn ext self features (Some l) mode params = Inl AssertionError"
      by (rule model_fn_other_mode [OF assms m])
    have b: "model_fn ext self features' labels' mode params \<noteq> Inr s" for features' labels' s
      by (rule model_fn_other_mode_fails [OF m])
    from a b show "model_fn ext self features (Some l) mode params = Inl AssertionError
        \<and> (\<forall>features' labels' s. model_fn ext self features' labels' mode params \<noteq> Inr s)"
      by blast
  qed
  from d p t e o show ?thesis by blast
qed

theorem model_fn_mode_dispatch_witness:
  "sample_features ''mmsi'' = Some ''m'' \<and> sample_features ''time_ranges'' = Some ''r''
   \<and> sample_features ''timestamps'' = Some ''t'' \<and> sample_features ''features'' = Some ''f''
   \<and> name ` set (training_objectives sample_model) \<subseteq> dom sample_labels
   \<and> ''serve'' \<notin> {PREDICT, TRAIN, EVAL}
   \<and> model_fn sample_ext sample_model sample_features (Some sample_labels) ''serve'' ()
       = Inl AssertionError
   \<and> (\<exists>s. model_fn sample_ext sample_model sample_features (Some sample_labels) EVAL ()
       = Inr s \<and> spec_mode s = EVAL)"
proof -
  have m: "''serve'' \<notin> {PREDICT, TRAIN, EVAL}"
    by (simp add: PREDICT_def TRAIN_def EVAL_def)
  show ?thesis
    using m sample_features_ok sample_labels_cover
      model_fn_mode_dispatch [OF sample_features_ok sample_labels_cover,
        of sample_ext "Some sample_labels" "()" "''serve''"]
    by blast
qed

text \<open>
  C6: in TRAIN and in EVAL mode, on well-formed features and labels, the loss of the
  returned spec is the sum, taken in the order of the five training objectives and
  starting from 0, of the \<open>create_loss\<close> of each objective on the label entry under that
  objective's own name.
\<close>

theorem total_loss_sums_objectives:
  assumes "features ''mmsi'' = Some mmsis" and "features ''time_ranges'' = Some time_ranges"
    and "features ''timestamps'' = Some timestamps" and "features ''features'' = Some feats"
    and "l ''length'' = Some l1" and "l ''tonnage'' = Some l2"
    and "l ''engine_power'' = Some l3" and "l ''crew_size'' = Some l4"
    and "l ''Multiclass'' = Some l5"
    and "mode = TRAIN \<or> mode = EVAL"
  shows "\<exists>s. model_fn ext (Model_init n md mt) features (Some l) mode params = Inr s
     \<and> spec_mode s = mode
     \<and> spec_loss s = Some (foldl (+) 0 (map
         (\<lambda>obj. create_loss ext
            (build_net ext (Model_init n md mt) feats timestamps mmsis (mode = TRAIN))
            obj (the (l (name obj))))
         (training_objectives (Model_init n md mt))))
     \<and> spec_loss s = Some
         (0
          + create_loss ext
              (build_net ext (Model_init n md mt) feats timestamps mmsis (mode = TRAIN))
              (training_objectives (Model_init n md mt) ! 0) l1
          + create_loss ext
              (build_net ext (Model_init n md mt) feats timestamps mmsis (mode = TRAIN))
              (training_objectives (Model_init n md mt) ! 1) l2
          + create_loss ext
              (build_net ext (Model_init n md mt) feats timestamps mmsis (mode = TRAIN))
              (training_objectives (Model_init n md mt) ! 2) l3
          + create_loss ext
              (build_net ext (Model_init n md mt) feats timestamps mmsis (mode = TRAIN))
              (training_objectives (Model_init n md mt) ! 3) l4
          + create_loss ext
              (build_net ext (Model_init n md mt) feats timestamps mmsis (mode = TRAIN))
              (training_objectives (Model_init n md mt) ! 4) l5)"
proof -
  let ?M = "Model_init n md mt"
  have cover: "name ` set (training_objectives ?M) \<subseteq> dom l"
    using assms(5-9) by (simp add: training_objectives_Model_init dom_def)
  have expand: "foldl (+) 0 (map
         (\<lambda>obj. create_loss ext net obj (the (l (name obj)))) (training_objectives ?M)) =
       0 + create_loss ext net (training_objectives ?M ! 0) l1
         + create_loss ext net (training_objectives ?M ! 1) l2
         + create_loss ext net (training_objectives ?M ! 2) l3
         + create_loss ext net (training_objectives ?M ! 3) l4
         + create_loss ext net (training_objectives ?M ! 4) l5" for net
    using assms(5-9) by (simp add: training_objectives_Model_init)
  from assms(10) show ?thesis
  proof
    assume m: "mode = TRAIN"
    show ?thesis
      unfolding m using model_fn_train [OF assms(1-4) cover, of ext params]
      by (simp add: expand)
  next
    assume m: "mode = EVAL"
    have ne: "(EVAL = TRAIN) = False"
      using PREDICT_neq_TRAIN by simp
    show ?thesis
      unfolding m ne using model_fn_eval [OF assms(1-4) cover, of ext params]
      by (auto simp: expand)
  qed
qed

theorem total_loss_sums_objectives_witness:
  "sample_features ''mmsi'' = Some ''m'' \<and> sample_features ''time_ranges'' = Some ''r''
   \<and> sample_features ''timestamps'' = Some ''t'' \<and> sample_features ''features'' = Some ''f''
   \<and> sample_labels ''length'' = Some ''a'' \<and> sample_labels ''tonnage'' = Some ''bb''
   \<and> sample_labels ''engine_power'' = Some ''ccc'' \<and> sample_labels ''crew_size'' = Some ''dddd''
   \<and> sample_labels ''Multiclass'' = Some ''eeeee''
   \<and> (\<exists>s. model_fn sample_ext (Model_init 14 () ()) sample_features (Some sample_labels) EVAL ()
         = Inr s \<and> spec_loss s = Some 15)"
proof -
  have m: "EVAL = TRAIN \<or> EVAL = EVAL"
    by simp
  note th = total_loss_sums_objectives [OF sample_features_ok sample_labels_ok m,
      of sample_ext 14 "()" "()" "()", unfolded create_loss_sample]
  from th obtain s where
    a: "model_fn sample_ext (Model_init 14 () ()) sample_features (Some sample_labels) EVAL ()
         = Inr s"
    and b: "spec_loss s = Some (0 + int (length ''a'') + int (length ''bb'') + int (length ''ccc'')
         + int (length ''dddd'') + int (length ''eeeee''))"
    by (elim exE conjE)
  have "spec_loss s = Some 15"
    using b by simp
  with a have "\<exists>s. model_fn sample_ext (Model_init 14 () ()) sample_features (Some sample_labels)
      EVAL () = Inr s \<and> spec_loss s = Some 15"
    by blast
  then show ?thesis
    using sample_features_ok sample_labels_ok by simp
qed

lemma model_fn_predict_labels:
  "model_fn ext self features labels PREDICT params =
   model_fn ext self features None PREDICT params"
  by (simp add: model_fn_def Let_def split: sum.splits)

lemma dom_add_predictions:
  "dom (add_predictions ext net objs d0) = dom d0 \<union> name ` set objs"
  unfolding add_predictions_def
  by (induction objs arbitrary: d0) auto

lemma add_predictions_Model_init:
  "obj \<in> set (training_objectives (Model_init n md mt)) \<Longrightarrow>
   add_predictions ext net (training_objectives (Model_init n md mt)) d0 (name obj) =
     Some (prediction ext net obj)"
  by (auto simp: add_predictions_def training_objectives_Model_init)

lemma add_predictions_other:
  "k \<notin> name ` set objs \<Longrightarrow> add_predictions ext net objs d0 k = d0 k"
  unfolding add_predictions_def
  by (induction objs arbitrary: d0) auto

text \<open>
  C9: in PREDICT mode the result of the model function does not depend on the labels, so
  it is the result with no labels at all; on features that hold the four keys read, the
  predictions dictionary of the spec has exactly the keys mmsi, time_ranges and
  timestamps and the names of the training objectives, each name mapped to the prediction
  of its objective.
\<close>

theorem predict_ignores_labels:
  assumes "features ''mmsi'' = Some mmsis" and "features ''time_ranges'' = Some time_ranges"
    and "features ''timestamps'' = Some timestamps" and "features ''features'' = Some feats"
  shows "model_fn ext (Model_init n md mt) features labels PREDICT params =
           model_fn ext (Model_init n md mt) features None PREDICT params
   \<and> (\<exists>s p. model_fn ext (Model_init n md mt) features None PREDICT params = Inr s
         \<and> spec_predictions s = Some p
         \<and> dom p = {''mmsi'', ''time_ranges'', ''timestamps''}
                     \<union> name ` set (training_objectives (Model_init n md mt))
         \<and> p ''mmsi'' = Some mmsis \<and> p ''time_ranges'' = Some time_ranges
         \<and> p ''timestamps'' = Some timestamps
         \<and> (\<forall>obj \<in> set (training_objectives (Model_init n md mt)).
               p (name obj) =
                 Some (prediction ext
                   (build_net ext (Model_init n md mt) feats timestamps mmsis False) obj)))"
proof -
  let ?M = "Model_init n md mt"
  let ?net = "build_net ext ?M feats timestamps mmsis False"
  let ?d0 = "[''mmsi'' \<mapsto> mmsis, ''time_ranges'' \<mapsto> time_ranges, ''timestamps'' \<mapsto> timestamps]"
  let ?p = "add_predictions ext ?net (training_objectives ?M) ?d0"
  have r: "model_fn ext ?M features None PREDICT params =
     Inr \<lparr> spec_mode = PREDICT, spec_predictions = Some ?p,
           spec_loss = None, spec_train_op = None, spec_eval_metric_ops = None \<rparr>"
    by (rule model_fn_predict [OF assms])
  have dm: "dom ?p = {''mmsi'', ''time_ranges'', ''timestamps''}
                     \<union> name ` set (training_objectives ?M)"
    by (simp add: dom_add_predictions) blast
  have keys: "?p ''mmsi'' = Some mmsis" "?p ''time_ranges'' = Some time_ranges"
    "?p ''timestamps'' = Some timestamps"
    by (simp_all add: add_predictions_other training_objectives_Model_init)
  have objs: "\<forall>obj \<in> set (training_objectives ?M). ?p (name obj) = Some (prediction ext ?net obj)"
    by (simp add: add_predictions_Model_init)
  show ?thesis
    using r dm keys objs by (simp add: model_fn_predict_labels [of _ _ _ labels])
qed

theorem predict_ignores_labels_witness:
  "sample_features ''mmsi'' = Some ''m'' \<and> sample_features ''time_ranges'' = Some ''r''
   \<and> sample_features ''timestamps'' = Some ''t'' \<and> sample_features ''features'' = Some ''f''
   \<and> MultiClassificationObjective ''Multiclass'' ''Vessel-class'' () () 1
        \<in> set (training_objectives (Model_init 14 () ()))
   \<and> model_fn sample_ext (Model_init 14 () ()) sample_features (Some sample_labels) PREDICT () =
       model_fn sample_ext (Model_init 14 () ()) sample_features None PREDICT ()
   \<and> (\<exists>s p. model_fn sample_ext (Model_init 14 () ()) sample_features None PREDICT () = Inr s
         \<and> spec_predictions s = Some p
         \<and> p ''mmsi'' = Some ''m''
         \<and> p ''Multiclass'' = Some ''prediction of Multiclass'')"
proof -
  have mem: "MultiClassificationObjective ''Multiclass'' ''Vessel-class'' () () 1
     \<in> set (training_objectives (Model_init 14 () ()))"
    by (simp add: training_objectives_Model_init)
  note th = predict_ignores_labels [OF sample_features_ok, of sample_ext 14 "()" "()"
      "Some sample_labels" "()", unfolded prediction_sample]
  from th have eq: "model_fn sample_ext (Model_init 14 () ()) sample_features
      (Some sample_labels) PREDICT () =
      model_fn sample_ext (Model_init 14 () ()) sample_features None PREDICT ()"
    by (elim conjE)
  from th obtain s p where
    a: "model_fn sample_ext (Model_init 14 () ()) sample_features None PREDICT () = Inr s"
    and b: "spec_predictions s = Some p"
    and c: "p ''mmsi'' = Some ''m''"
    and d: "\<forall>obj \<in> set (training_objectives (Model_init 14 () ())).
              p (name obj) = Some (''prediction of '' @ name obj)"
    by (elim exE conjE)
  have "p (name (MultiClassificationObjective ''Multiclass'' ''Vessel-class'' () () 1)) =
      Some (''prediction of '' @
        name (MultiClassificationObjective ''Multiclass'' ''Vessel-class'' () () 1))"
    using d mem by (rule bspec)
  then have e: "p ''Multiclass'' = Some ''prediction of Multiclass''"
    by simp
  from a b c e have "\<exists>s p. model_fn sample_ext (Model_init 14 () ()) sample_features None
      PREDICT () = Inr s \<and> spec_predictions s = Some p \<and> p ''mmsi'' = Some ''m''
         \<and> p ''Multiclass'' = Some ''prediction of Multiclass''"
    by blast
  then show ?thesis
    using sample_features_ok mem eq by simp
qed


section \<open>Input functions\<close>

text \<open>
  C7: the training and the test input-function factories are the generic factory at the
  training and at the test split, for every path, parallelism and prefetch; an omitted
  prefetch is 1024 in both.
\<close>

theorem make_input_fn_specialised:
  "make_training_input_fn env self base_feature_path parallelism (Some prefetch) =
     make_input_fn env self base_feature_path (TRAINING_SPLIT env) parallelism prefetch
   \<and> make_test_input_fn env self base_feature_path parallelism (Some prefetch) =
     make_input_fn env self base_feature_path (TEST_SPLIT env) parallelism prefetch
   \<and> make_training_input_fn env self base_feature_path parallelism None =
     make_input_fn env self base_feature_path (TRAINING_SPLIT env) parallelism 1024
   \<and> make_test_input_fn env self base_feature_path parallelism None =
     make_input_fn env self base_feature_path (TEST_SPLIT env) parallelism 1024"
  by (simp add: make_training_input_fn_def make_test_input_fn_def)

lemma make_input_fn_call:
  "make_input_fn env self base_feature_path split parallelism prefetch () =
     Inr (Batch (Shuffle (Prefetch
        (Input_fn (vessel_metadata self)
           (build_training_file_list env self base_feature_path split)
           (num_feature_dimensions self + 1) 15552000 12800 500
           (training_objectives self) parallelism)
        prefetch) prefetch) 128)"
  by (simp add: make_input_fn_def window_max_points_value max_window_duration_seconds_def
      min_viable_timeslice_length_def batch_size_def)

lemma make_prediction_input_fn_call:
  "make_prediction_input_fn self paths range_info parallelism () =
     Inr (Batch (Predict_input_fn paths (num_feature_dimensions self + 1) range_info
        12800 500 parallelism) 1)"
  by (simp add: make_prediction_input_fn_def window_max_points_value
      min_viable_timeslice_length_def)

text \<open>
  C4, as stated: every input-function factory, the one for prediction included, gives a
  stream that is batched, shuffled and prefetched. The stream of the prediction factory
  is not.
\<close>

theorem prediction_stream_not_shuffled_counterexample:
  "\<not> batched_shuffled_prefetched
       (make_prediction_input_fn sample_model [''tracks-0001''] [(0::int, 86400::int)] 4 ()
          :: error + (unit, unit, string list, string list, (int \<times> int) list) dataset)"
  by (simp add: make_prediction_input_fn_call batched_shuffled_prefetched_def)

text \<open>
  C4, amended: the input function of the generic factory applies \<open>prefetch\<close>,
  \<open>shuffle\<close> (both with the prefetch argument) and \<open>batch\<close> (with the batch size),
  in that order, to the stream of the feature-generation module, so the training and the
  test streams are batched, shuffled and prefetched; the prediction input function only
  applies \<open>batch(1)\<close>: its stream is batched, neither shuffled nor prefetched.
\<close>

theorem input_fn_pipelines:
  "make_input_fn env self base_feature_path split parallelism prefetch () =
     Inr (Batch (Shuffle (Prefetch
        (Input_fn (vessel_metadata self)
           (build_training_file_list env self base_feature_path split)
           (num_feature_dimensions self + 1) (max_window_duration_seconds self) 12800
           (min_viable_timeslice_length self) (training_objectives self) parallelism)
        prefetch) prefetch) (batch_size self))
   \<and> batch_size self = 128
   \<and> batched_shuffled_prefetched
       (make_training_input_fn env self base_feature_path parallelism prefetch_opt ())
   \<and> batched_shuffled_prefetched
       (make_test_input_fn env self base_feature_path parallelism prefetch_opt ())
   \<and> make_prediction_input_fn self paths range_info parallelism () =
       Inr (Batch (Predict_input_fn paths (num_feature_dimensions self + 1) range_info
          12800 (min_viable_timeslice_length self) parallelism) 1)
   \<and> (\<exists>ds. make_prediction_input_fn self paths range_info parallelism () = Inr ds
         \<and> batched ds \<and> \<not> shuffled ds \<and> \<not> prefetched ds)"
  by (simp add: make_input_fn_call make_prediction_input_fn_call
      make_training_input_fn_def make_test_input_fn_def batched_shuffled_prefetched_def
      max_window_duration_seconds_def min_viable_timeslice_length_def batch_size_def)

end
